theory Spec2Isabelle
  imports Main "HOL-Library.List_Lexorder" "HOL-Library.Char_ord"
begin

section \<open>Python strings, values and exceptions\<close>

text \<open>
  Strings are \<^typ>\<open>string\<close>. An exception is its class together with the text that
  \<^verbatim>\<open>str(e)\<close> gives; a function that may raise returns \<^typ>\<open>'e + 'a\<close> with the
  exception on the left.
\<close>

datatype exn_kind = IndexError | ValueError | KeyError | TypeError | LibraryError

datatype exn = Exn exn_kind string

fun str_exn :: "exn \<Rightarrow> string" where
  "str_exn (Exn k msg) = msg"

text \<open>\<^verbatim>\<open>sep.join(items)\<close>\<close>

fun join :: "string \<Rightarrow> string list \<Rightarrow> string" where
  "join sep [] = []"
| "join sep [x] = x"
| "join sep (x # y # ys) = x @ sep @ join sep (y # ys)"

text \<open>\<^verbatim>\<open>s.split(c)\<close> for a separator of one character: never the empty list.\<close>

fun split_str :: "char \<Rightarrow> string \<Rightarrow> string list" where
  "split_str c [] = [[]]"
| "split_str c (x # xs) =
     (if x = c then [] # split_str c xs
      else (case split_str c xs of [] \<Rightarrow> [[x]] | p # ps \<Rightarrow> (x # p) # ps))"

text \<open>\<^verbatim>\<open>s.lower()\<close> on the ASCII letters; every other character is left as it is.\<close>

definition lower_char :: "char \<Rightarrow> char" where
  "lower_char c =
     (case map_of (zip ''ABCDEFGHIJKLMNOPQRSTUVWXYZ'' ''abcdefghijklmnopqrstuvwxyz'') c of
        None \<Rightarrow> c | Some l \<Rightarrow> l)"

definition lower :: "string \<Rightarrow> string" where
  "lower s = map lower_char s"

text \<open>\<^verbatim>\<open>s.replace(a, b)\<close> for single characters.\<close>

definition replace_char :: "char \<Rightarrow> char \<Rightarrow> string \<Rightarrow> string" where
  "replace_char a b s = map (\<lambda>c. if c = a then b else c) s"

text \<open>\<^verbatim>\<open>s.startswith(p)\<close> and the substring test \<^verbatim>\<open>sub in s\<close>.\<close>

definition startswith :: "string \<Rightarrow> string \<Rightarrow> bool" where
  "startswith s p = (take (length p) s = p)"

fun substring_in :: "string \<Rightarrow> string \<Rightarrow> bool" where
  "substring_in sub [] = (sub = [])"
| "substring_in sub (x # xs) = (startswith (x # xs) sub \<or> substring_in sub xs)"

text \<open>\<^verbatim>\<open>str(n)\<close> of an integer.\<close>

fun str_nat :: "nat \<Rightarrow> string" where
  "str_nat n =
     (if n < 10 then [''0123456789'' ! n]
      else str_nat (n div 10) @ [''0123456789'' ! (n mod 10)])"

definition str_int :: "int \<Rightarrow> string" where
  "str_int i = (if i < 0 then ''-'' @ str_nat (nat (- i)) else str_nat (nat i))"

text \<open>
  The values a filter carries: \<^verbatim>\<open>None\<close>, a string or an integer. A key that is absent
  from the filter dictionary reads as \<^verbatim>\<open>None\<close> through \<^verbatim>\<open>dict.get\<close>.
\<close>

datatype pyvalue = PyNone | PyStr string | PyInt int

fun str_value :: "pyvalue \<Rightarrow> string" where
  "str_value PyNone = ''None''"
| "str_value (PyStr s) = s"
| "str_value (PyInt i) = str_int i"

section \<open>The visual query builder (query\_builder.py)\<close>

text \<open>
  A filter is the dictionary \<^verbatim>\<open>{'column': .., 'operator': .., 'value': ..}\<close>.
  \<open>filter_column\<close> is \<open>None\<close> when the key is absent or holds \<^verbatim>\<open>None\<close>;
  \<open>filter_operator\<close> is \<open>None\<close> when the key is absent (the code then takes \<^verbatim>\<open>'='\<close>).
\<close>

record filter_item =
  filter_column :: "string option"
  filter_operator :: "string option"
  filter_value :: pyvalue

text \<open>
  \<^verbatim>\<open>aggregations\<close> is a dictionary from column to function name. The optional arguments
  \<^verbatim>\<open>group_by\<close>, \<^verbatim>\<open>aggregations\<close>, \<^verbatim>\<open>filters\<close> and \<^verbatim>\<open>order_by\<close> default to
  \<^verbatim>\<open>None\<close>; the code only tests their truth value before use, so \<^verbatim>\<open>None\<close> is the
  empty list or dictionary here.
\<close>

type_synonym aggregations = "string \<rightharpoonup> string"

text \<open>\<^verbatim>\<open>column.split('.')[-1]\<close>\<close>

definition col_name_of :: "string \<Rightarrow> string" where
  "col_name_of column = last (split_str (CHR ''.'') column)"

definition select_item :: "aggregations \<Rightarrow> string \<Rightarrow> string" where
  "select_item aggregations column =
     (case aggregations column of
        Some agg_func \<Rightarrow>
          agg_func @ ''('' @ column @ '') AS '' @ lower agg_func @ ''_'' @ col_name_of column
      | None \<Rightarrow> column)"

definition build_select_columns :: "string list \<Rightarrow> aggregations \<Rightarrow> string" where
  "build_select_columns columns aggregations =
     join '',\<newline>    ''
       (foldl (\<lambda>select_items column. select_items @ [select_item aggregations column]) [] columns)"

definition join_for :: "string \<Rightarrow> string \<Rightarrow> string" where
  "join_for main_table table =
     (if substring_in ''customer'' table \<and> substring_in ''customer'' main_table
      then ''JOIN '' @ table @ '' ON '' @ main_table @ ''.customer_id = '' @ table @ ''.customer_id''
      else ''JOIN '' @ table @ '' ON '' @ main_table @ ''.id = '' @ table @ ''.id'')"

text \<open>\<^verbatim>\<open>tables[0]\<close> on the empty list raises \<^verbatim>\<open>IndexError\<close>.\<close>

definition build_from_clause :: "string list \<Rightarrow> exn + string" where
  "build_from_clause tables =
     (if length tables = 1 then Inr (hd tables)
      else (case tables of
              [] \<Rightarrow> Inl (Exn IndexError ''list index out of range'')
            | main_table # rest \<Rightarrow>
                Inr (main_table @ ''\<newline>'' @
                     join ''\<newline>''
                       (foldl (\<lambda>joins table. joins @ [join_for main_table table]) [] rest))))"

definition quoting_operators :: "string list" where
  "quoting_operators = [''='', ''!='', ''LIKE'']"

text \<open>One pass of the loop body of \<^verbatim>\<open>_build_where_clause\<close>.\<close>

definition add_condition :: "string list \<Rightarrow> filter_item \<Rightarrow> string list" where
  "add_condition conditions filter_item =
     (let column = filter_column filter_item;
          operator = (case filter_operator filter_item of None \<Rightarrow> ''='' | Some op \<Rightarrow> op);
          val = filter_value filter_item
      in case column of
           None \<Rightarrow> conditions
         | Some col \<Rightarrow>
             if col \<noteq> [] \<and> val \<noteq> PyNone then
               (case val of
                  PyStr s \<Rightarrow>
                    if operator \<in> set quoting_operators
                    then conditions @ [col @ '' '' @ operator @ '' '' @ [CHR 0x27] @ s @ [CHR 0x27]]
                    else conditions @ [col @ '' '' @ operator @ '' '' @ s]
                | _ \<Rightarrow> conditions @ [col @ '' '' @ operator @ '' '' @ str_value val])
             else conditions)"

definition build_where_clause :: "filter_item list \<Rightarrow> string" where
  "build_where_clause filters =
     (if filters = [] then []
      else (let conditions = foldl add_condition [] filters
            in if conditions \<noteq> [] then ''WHERE '' @ join '' AND '' conditions else []))"

definition build_group_by_clause :: "string list \<Rightarrow> string" where
  "build_group_by_clause group_by =
     (if group_by = [] then [] else ''GROUP BY '' @ join '', '' group_by)"

definition order_item :: "aggregations \<Rightarrow> string \<Rightarrow> string" where
  "order_item aggregations item =
     (case aggregations item of
        Some agg_func \<Rightarrow> lower agg_func @ ''_'' @ col_name_of item @ '' DESC''
      | None \<Rightarrow> item @ '' ASC'')"

definition build_order_by_clause :: "string list \<Rightarrow> aggregations \<Rightarrow> string" where
  "build_order_by_clause order_by aggregations =
     (if order_by = [] then []
      else ''ORDER BY '' @
           join '', '' (foldl (\<lambda>order_items item. order_items @ [order_item aggregations item]) [] order_by))"

text \<open>
  The list \<^verbatim>\<open>query_parts\<close> that \<^verbatim>\<open>build_query\<close> assembles, or the exception that
  leaves the \<^verbatim>\<open>try\<close> block. The handler logs and re-raises the same exception.
\<close>

definition query_parts ::
  "string list \<Rightarrow> string list \<Rightarrow> string list \<Rightarrow> aggregations \<Rightarrow> filter_item list \<Rightarrow> string list
     \<Rightarrow> exn + string list" where
  "query_parts tables columns group_by aggregations filters order_by =
     (let select_columns = build_select_columns columns aggregations
      in case build_from_clause tables of
           Inl e \<Rightarrow> Inl e
         | Inr from_clause \<Rightarrow>
             (let where_clause = (if filters \<noteq> [] then build_where_clause filters else []);
                  group_clause = (if group_by \<noteq> [] then build_group_by_clause group_by else []);
                  order_clause =
                    (if order_by \<noteq> [] then build_order_by_clause order_by aggregations else [])
              in Inr ([''SELECT '' @ select_columns, ''FROM '' @ from_clause]
                      @ (if where_clause \<noteq> [] then [where_clause] else [])
                      @ (if group_clause \<noteq> [] then [group_clause] else [])
                      @ (if order_clause \<noteq> [] then [order_clause] else []))))"

definition build_query ::
  "string list \<Rightarrow> string list \<Rightarrow> string list \<Rightarrow> aggregations \<Rightarrow> filter_item list \<Rightarrow> string list
     \<Rightarrow> exn + string" where
  "build_query tables columns group_by aggregations filters order_by =
     (case query_parts tables columns group_by aggregations filters order_by of
        Inl e \<Rightarrow> Inl e
      | Inr parts \<Rightarrow> Inr (join ''\<newline>'' parts))"


text \<open>The filters that the loop of \<^verbatim>\<open>_build_where_clause\<close> does not skip.\<close>

definition rendered :: "filter_item \<Rightarrow> bool" where
  "rendered f =
     (filter_column f \<noteq> None \<and> filter_column f \<noteq> Some [] \<and> filter_value f \<noteq> PyNone)"

record validation_result =
  is_valid :: bool
  errors :: "string list"
  warnings :: "string list"

definition check_column :: "string list \<Rightarrow> validation_result \<Rightarrow> string \<Rightarrow> validation_result" where
  "check_column tables validation_result column =
     (if CHR ''.'' \<in> set column then
        (let table_name = hd (split_str (CHR ''.'') column)
         in if table_name \<notin> set tables
            then validation_result\<lparr>warnings := warnings validation_result @
                   [''Column '' @ column @ '' references table '' @ table_name @
                    '' which is not selected'']\<rparr>
            else validation_result)
      else validation_result)"

definition validate_query_components :: "string list \<Rightarrow> string list \<Rightarrow> validation_result" where
  "validate_query_components tables columns =
     (let r0 = \<lparr>is_valid = True, errors = [], warnings = []\<rparr>;
          r1 = (if tables = []
                then r0\<lparr>is_valid := False,
                        errors := errors r0 @ [''At least one table must be selected'']\<rparr>
                else r0);
          r2 = (if columns = []
                then r1\<lparr>is_valid := False,
                        errors := errors r1 @ [''At least one column must be selected'']\<rparr>
                else r1)
      in foldl (check_column tables) r2 columns)"

section \<open>Result tables (pandas DataFrame)\<close>

text \<open>
  A result table is a pandas \<^verbatim>\<open>DataFrame\<close>: the length of its index and its columns in
  order, each a name with a typed series. A numeric series holds integers, a text series
  (dtype \<^verbatim>\<open>object\<close>) holds strings, and a series of any other dtype (datetime, boolean) holds
  its cells as text; \<open>None\<close> is a null cell. Numbers are mathematical integers: neither
  the wrap-around of \<^verbatim>\<open>int64\<close> nor the rounding of \<^verbatim>\<open>float64\<close> is modelled.
  \<^verbatim>\<open>df.empty\<close> holds when either axis has length zero.
\<close>

datatype series =
    NumCol "int option list"
  | TextCol "string option list"
  | OtherCol "string option list"

record dataframe =
  index_len :: nat
  df_columns :: "(string \<times> series) list"

definition df_empty :: "dataframe \<Rightarrow> bool" where
  "df_empty df = (index_len df = 0 \<or> df_columns df = [])"

fun is_number :: "series \<Rightarrow> bool" where
  "is_number (NumCol vs) = True"
| "is_number (TextCol vs) = False"
| "is_number (OtherCol vs) = False"

definition select_dtypes_number :: "dataframe \<Rightarrow> dataframe" where
  "select_dtypes_number df = df\<lparr>df_columns := filter (\<lambda>c. is_number (snd c)) (df_columns df)\<rparr>"

text \<open>
  \<^verbatim>\<open>df.groupby(k)[v].sum()\<close> over the rows \<open>(key, value)\<close>: pandas drops the rows whose
  key is null, sorts the distinct keys, and adds up the values of each group, skipping the
  null ones (a group with no value sums to zero).
\<close>

definition group_keys :: "('k::linorder option \<times> 'v) list \<Rightarrow> 'k list" where
  "group_keys rows = sort (remdups (concat (map (\<lambda>r. case fst r of None \<Rightarrow> [] | Some k \<Rightarrow> [k]) rows)))"

definition group_total :: "'k \<Rightarrow> ('k option \<times> 'v::comm_monoid_add option) list \<Rightarrow> 'v" where
  "group_total k rows =
     sum_list (map (\<lambda>r. case snd r of None \<Rightarrow> 0 | Some x \<Rightarrow> x) (filter (\<lambda>r. fst r = Some k) rows))"

definition groupby_sum :: "('k::linorder option \<times> 'v::comm_monoid_add option) list \<Rightarrow> ('k \<times> 'v) list" where
  "groupby_sum rows = map (\<lambda>k. (k, group_total k rows)) (group_keys rows)"

section \<open>The chart builder (chart\_builder.py)\<close>

text \<open>
  The calls into plotly, numpy and pandas are a parameter of the model. \<open>plot\<close> stands for
  the library calls a chart method makes once its own checks have passed, given the kind of
  chart, the table handed over and the configuration: it yields the figure, or the
  exception that one of those calls raises. \<open>groupby_other\<close> stands for
  \<^verbatim>\<open>df.groupby(k)[v].sum().reset_index()\<close> where the value column is not numeric, the key
  column is of another dtype, or both are the same column. \<open>update_layout\<close> applies the
  theme and the sizing. A configuration maps a role key such as \<^verbatim>\<open>'x_col'\<close> to a column
  name; an absent key and the value \<^verbatim>\<open>None\<close> both read as \<open>None\<close>.
\<close>

datatype chart_kind = Bar | Line | Scatter | Pie | Histogram | Box | Heatmap | Area | Treemap

type_synonym config = "string \<rightharpoonup> string"

record 'fig library =
  plot :: "chart_kind \<Rightarrow> dataframe \<Rightarrow> config \<Rightarrow> exn + 'fig"
  groupby_other :: "dataframe \<Rightarrow> string \<Rightarrow> string \<Rightarrow> exn + dataframe"
  update_layout :: "'fig \<Rightarrow> 'fig"

text \<open>\<^verbatim>\<open>not v\<close> for an optional string.\<close>

definition falsy :: "string option \<Rightarrow> bool" where
  "falsy v = (v = None \<or> v = Some [])"

definition df_groupby_sum :: "'fig library \<Rightarrow> dataframe \<Rightarrow> string \<Rightarrow> string \<Rightarrow> exn + dataframe" where
  "df_groupby_sum lib df by_col val_col =
     (case map_of (df_columns df) by_col of
        None \<Rightarrow> Inl (Exn KeyError ([CHR 0x27] @ by_col @ [CHR 0x27]))
      | Some keys \<Rightarrow>
          (case map_of (df_columns df) val_col of
             None \<Rightarrow> Inl (Exn KeyError ([CHR 0x27] @ ''Column not found: '' @ val_col @ [CHR 0x27]))
           | Some (NumCol vs) \<Rightarrow>
               if by_col = val_col then groupby_other lib df by_col val_col
               else (case keys of
                       TextCol ks \<Rightarrow>
                         (let g = groupby_sum (zip ks vs)
                          in Inr \<lparr>index_len = length g,
                                  df_columns = [(by_col, TextCol (map (\<lambda>r. Some (fst r)) g)),
                                                (val_col, NumCol (map (\<lambda>r. Some (snd r)) g))]\<rparr>)
                     | NumCol ks \<Rightarrow>
                         (let g = groupby_sum (zip ks vs)
                          in Inr \<lparr>index_len = length g,
                                  df_columns = [(by_col, NumCol (map (\<lambda>r. Some (fst r)) g)),
                                                (val_col, NumCol (map (\<lambda>r. Some (snd r)) g))]\<rparr>)
                     | OtherCol ks \<Rightarrow> groupby_other lib df by_col val_col)
           | Some _ \<Rightarrow> groupby_other lib df by_col val_col))"

definition create_bar_chart :: "'fig library \<Rightarrow> dataframe \<Rightarrow> config \<Rightarrow> exn + 'fig" where
  "create_bar_chart lib df config =
     (let x_col = config ''x_col''; y_col = config ''y_col''
      in if falsy x_col \<or> falsy y_col
         then Inl (Exn ValueError ''Bar chart requires x and y columns'')
         else plot lib Bar df config)"

definition create_line_chart :: "'fig library \<Rightarrow> dataframe \<Rightarrow> config \<Rightarrow> exn + 'fig" where
  "create_line_chart lib df config =
     (let x_col = config ''x_col''; y_col = config ''y_col''
      in if falsy x_col \<or> falsy y_col
         then Inl (Exn ValueError ''Line chart requires x and y columns'')
         else plot lib Line df config)"

definition create_scatter_plot :: "'fig library \<Rightarrow> dataframe \<Rightarrow> config \<Rightarrow> exn + 'fig" where
  "create_scatter_plot lib df config =
     (let x_col = config ''x_col''; y_col = config ''y_col''
      in if falsy x_col \<or> falsy y_col
         then Inl (Exn ValueError ''Scatter plot requires x and y columns'')
         else plot lib Scatter df config)"

definition create_pie_chart :: "'fig library \<Rightarrow> dataframe \<Rightarrow> config \<Rightarrow> exn + 'fig" where
  "create_pie_chart lib df config =
     (case (config ''label_col'', config ''value_col'') of
        (Some label_col, Some value_col) \<Rightarrow>
          if label_col = [] \<or> value_col = []
          then Inl (Exn ValueError ''Pie chart requires label and value columns'')
          else (case df_groupby_sum lib df label_col value_col of
                  Inl e \<Rightarrow> Inl e
                | Inr pie_data \<Rightarrow> plot lib Pie pie_data config)
      | _ \<Rightarrow> Inl (Exn ValueError ''Pie chart requires label and value columns''))"

definition create_histogram :: "'fig library \<Rightarrow> dataframe \<Rightarrow> config \<Rightarrow> exn + 'fig" where
  "create_histogram lib df config =
     (let x_col = config ''x_col''
      in if falsy x_col
         then Inl (Exn ValueError ''Histogram requires x column'')
         else plot lib Histogram df config)"

definition create_box_plot :: "'fig library \<Rightarrow> dataframe \<Rightarrow> config \<Rightarrow> exn + 'fig" where
  "create_box_plot lib df config =
     (let x_col = config ''x_col''
      in if falsy x_col
         then Inl (Exn ValueError ''Box plot requires x column'')
         else plot lib Box df config)"

definition create_heatmap :: "'fig library \<Rightarrow> dataframe \<Rightarrow> config \<Rightarrow> exn + 'fig" where
  "create_heatmap lib df config =
     (let numeric_df = select_dtypes_number df
      in if df_empty numeric_df
         then Inl (Exn ValueError ''Heatmap requires numeric data'')
         else plot lib Heatmap numeric_df config)"

definition create_area_chart :: "'fig library \<Rightarrow> dataframe \<Rightarrow> config \<Rightarrow> exn + 'fig" where
  "create_area_chart lib df config =
     (let x_col = config ''x_col''; y_col = config ''y_col''
      in if falsy x_col \<or> falsy y_col
         then Inl (Exn ValueError ''Area chart requires x and y columns'')
         else plot lib Area df config)"

definition create_treemap :: "'fig library \<Rightarrow> dataframe \<Rightarrow> config \<Rightarrow> exn + 'fig" where
  "create_treemap lib df config =
     (case (config ''label_col'', config ''value_col'') of
        (Some label_col, Some value_col) \<Rightarrow>
          if label_col = [] \<or> value_col = []
          then Inl (Exn ValueError ''Treemap requires label and value columns'')
          else (case df_groupby_sum lib df label_col value_col of
                  Inl e \<Rightarrow> Inl e
                | Inr treemap_data \<Rightarrow> plot lib Treemap treemap_data config)
      | _ \<Rightarrow> Inl (Exn ValueError ''Treemap requires label and value columns''))"

definition chart_methods ::
  "string \<Rightarrow> ('fig library \<Rightarrow> dataframe \<Rightarrow> config \<Rightarrow> exn + 'fig) option" where
  "chart_methods =
     map_of [(''Bar Chart'', create_bar_chart),
             (''Line Chart'', create_line_chart),
             (''Scatter Plot'', create_scatter_plot),
             (''Pie Chart'', create_pie_chart),
             (''Histogram'', create_histogram),
             (''Box Plot'', create_box_plot),
             (''Heatmap'', create_heatmap),
             (''Area Chart'', create_area_chart),
             (''Treemap'', create_treemap)]"

text \<open>
  \<^verbatim>\<open>create_chart\<close> catches every exception of the chart method and returns \<^verbatim>\<open>None\<close>.
\<close>

definition create_chart :: "'fig library \<Rightarrow> dataframe \<Rightarrow> string \<Rightarrow> config \<Rightarrow> 'fig option" where
  "create_chart lib df chart_type config =
     (if df_empty df then None
      else (case chart_methods chart_type of
              None \<Rightarrow> None
            | Some method \<Rightarrow>
                (case method lib df config of
                   Inl e \<Rightarrow> None
                 | Inr chart \<Rightarrow> Some (update_layout lib chart))))"

text \<open>
  The roles each chart type requires, as the specification lists them, under the
  chart-type names of the code.
\<close>

definition required_roles :: "string \<Rightarrow> string list" where
  "required_roles chart_type =
     (if chart_type \<in> set [''Bar Chart'', ''Line Chart'', ''Scatter Plot'', ''Area Chart'']
      then [''x_col'', ''y_col'']
      else if chart_type \<in> set [''Pie Chart'', ''Treemap''] then [''label_col'', ''value_col'']
      else if chart_type \<in> set [''Histogram'', ''Box Plot''] then [''x_col'']
      else [])"

definition role_missing :: "string \<Rightarrow> config \<Rightarrow> bool" where
  "role_missing chart_type config =
     (filter (\<lambda>role. falsy (config role)) (required_roles chart_type) \<noteq> [])"

text \<open>A library that never raises and whose figure is the table it was given.\<close>

definition echo_library :: "dataframe library" where
  "echo_library = \<lparr>plot = (\<lambda>kind data config. Inr data),
                    groupby_other = (\<lambda>df by_col val_col. Inr df),
                    update_layout = (\<lambda>fig. fig)\<rparr>"

section \<open>The report generator (report\_generator.py)\<close>

text \<open>
  The three template methods read the clock and call pandas and plotly; they are fields of
  the generator here, each a function that returns the document or the exception it raises.
\<close>

type_synonym template = "dataframe \<Rightarrow> string \<Rightarrow> bool \<Rightarrow> bool \<Rightarrow> exn + string"

record report_generator =
  css_styles :: string
  executive_summary_template :: template
  detailed_analysis_template :: template
  trend_report_template :: template

definition report_templates :: "report_generator \<Rightarrow> string \<Rightarrow> template option" where
  "report_templates self =
     map_of [(''executive_summary'', executive_summary_template self),
             (''detailed_analysis'', detailed_analysis_template self),
             (''trend_report'', trend_report_template self)]"

definition error_report :: "report_generator \<Rightarrow> string \<Rightarrow> string" where
  \<open>error_report self error_message =
     ''\<newline>        <!DOCTYPE html>'' @
     ''\<newline>        <html>'' @
     ''\<newline>        <head>'' @
     ''\<newline>            <title>Report Generation Error</title>'' @
     ''\<newline>            '' @ css_styles self @
     ''\<newline>        </head>'' @
     ''\<newline>        <body>'' @
     ''\<newline>            <div class="report-container">'' @
     ''\<newline>                <div class="header">'' @
     ''\<newline>                    <h1 style="color: #dc3545;">Report Generation Error</h1>'' @
     ''\<newline>                </div>'' @
     ''\<newline>                <div class="section">'' @
     ''\<newline>                    <p>An error occurred while generating the report:</p>'' @
     ''\<newline>                    <pre style="background: #f8f9fa; padding: 15px; border-radius: 5px;">'' @
     error_message @ ''</pre>'' @
     ''\<newline>                </div>'' @
     ''\<newline>            </div>'' @
     ''\<newline>        </body>'' @
     ''\<newline>        </html>'' @
     ''\<newline>        ''\<close>

text \<open>\<^verbatim>\<open>report_type.lower().replace(' ', '_')\<close>\<close>

definition template_key :: "string \<Rightarrow> string" where
  "template_key report_type = replace_char (CHR '' '') (CHR ''_'') (lower report_type)"

definition template_func :: "report_generator \<Rightarrow> string \<Rightarrow> template" where
  "template_func self report_type =
     (case report_templates self (template_key report_type) of
        None \<Rightarrow> detailed_analysis_template self
      | Some t \<Rightarrow> t)"

definition generate_report ::
  "report_generator \<Rightarrow> dataframe \<Rightarrow> string \<Rightarrow> string \<Rightarrow> bool \<Rightarrow> bool \<Rightarrow> exn + string" where
  "generate_report self df title report_type include_charts include_statistics =
     (case template_func self report_type df title include_charts include_statistics of
        Inr report_html \<Rightarrow> Inr report_html
      | Inl e \<Rightarrow> Inr (error_report self (str_exn e)))"

text \<open>\<^verbatim>\<open>s.endswith(p)\<close>\<close>

definition endswith :: "string \<Rightarrow> string \<Rightarrow> bool" where
  "endswith s p = (drop (length s - length p) s = p)"

text \<open>A generator whose executive template raises and whose other templates succeed.\<close>

definition failing_generator :: report_generator where
  "failing_generator =
     \<lparr>css_styles = ''<style></style>'',
      executive_summary_template = (\<lambda>df title ic st. Inl (Exn KeyError ''usage'')),
      detailed_analysis_template = (\<lambda>df title ic st. Inr (''<html>'' @ title @ ''</html>'')),
      trend_report_template = (\<lambda>df title ic st. Inr ''<html>trend</html>'')\<rparr>"

section \<open>Properties of the string functions and of the WHERE clause\<close>

lemma foldl_snoc_map: "foldl (\<lambda>acc x. acc @ [f x]) a xs = a @ map f xs"
  by (induction xs arbitrary: a) simp_all

lemma split_str_not_Nil: "split_str c s \<noteq> []"
  by (induction s) (auto split: list.splits)

lemma split_str_no_sep: "c \<notin> set s \<Longrightarrow> split_str c s = [s]"
  by (induction s) auto

lemma split_str_sep: "c \<in> set s \<Longrightarrow> \<exists>p q qs. split_str c s = p # q # qs"
proof (induction s)
  case Nil
  then show ?case by simp
next
  case (Cons x xs)
  show ?case
  proof (cases "x = c")
    case True
    then show ?thesis using split_str_not_Nil [of c xs] by (cases "split_str c xs") auto
  next
    case False
    with Cons show ?thesis by auto
  qed
qed

lemma hd_split_str: "hd (split_str c s) = takeWhile (\<lambda>x. x \<noteq> c) s"
  by (induction s) (auto split: list.splits simp: split_str_not_Nil)

lemma last_split_str: "last (split_str c s) = rev (takeWhile (\<lambda>x. x \<noteq> c) (rev s))"
proof (induction s)
  case Nil
  then show ?case by simp
next
  case (Cons x xs)
  show ?case
  proof (cases "c \<in> set xs")
    case True
    then have tw: "takeWhile (\<lambda>x. x \<noteq> c) (rev xs @ [x]) = takeWhile (\<lambda>x. x \<noteq> c) (rev xs)"
      by simp
    have "last (split_str c (x # xs)) = last (split_str c xs)"
      using split_str_sep [OF True] by (auto split: list.splits)
    with Cons tw show ?thesis by simp
  next
    case False
    then have tw: "takeWhile (\<lambda>x. x \<noteq> c) (rev xs @ [x]) = rev xs @ takeWhile (\<lambda>x. x \<noteq> c) [x]"
      by (intro takeWhile_append2) auto
    from False have sp: "split_str c xs = [xs]" by (rule split_str_no_sep)
    have "rev (takeWhile (\<lambda>x. x \<noteq> c) (rev (x # xs))) = (if x = c then xs else x # xs)"
      unfolding rev.simps tw by simp
    moreover have "last (split_str c (x # xs)) = (if x = c then xs else x # xs)"
      using sp by simp
    ultimately show ?thesis by simp
  qed
qed

lemma add_condition_skip: "\<not> rendered f \<Longrightarrow> add_condition conditions f = conditions"
  by (auto simp: rendered_def add_condition_def Let_def split: option.splits)

lemma add_condition_rendered:
  "rendered f \<Longrightarrow> \<exists>c. add_condition conditions f = conditions @ [c]"
  by (auto simp: rendered_def add_condition_def Let_def split: option.splits pyvalue.splits)

lemma foldl_add_condition_filter:
  "foldl add_condition acc filters = foldl add_condition acc (filter rendered filters)"
  by (induction filters arbitrary: acc) (simp_all add: add_condition_skip)

lemma foldl_add_condition_grows:
  "\<exists>cs. foldl add_condition acc filters = acc @ cs \<and> length cs = length (filter rendered filters)"
proof (induction filters arbitrary: acc)
  case Nil
  then show ?case by simp
next
  case (Cons f fs)
  show ?case
  proof (cases "rendered f")
    case True
    then obtain c where c: "add_condition acc f = acc @ [c]"
      using add_condition_rendered by blast
    from Cons [of "acc @ [c]"] obtain cs where
      "foldl add_condition (acc @ [c]) fs = (acc @ [c]) @ cs" "length cs = length (filter rendered fs)"
      by blast
    with c True show ?thesis by simp
  next
    case False
    with Cons [of acc] show ?thesis by (simp add: add_condition_skip)
  qed
qed

lemma conditions_empty_iff:
  "foldl add_condition [] filters = [] \<longleftrightarrow> filter rendered filters = []"
  using foldl_add_condition_grows [of "[]" filters] by auto

lemma build_where_clause_filter:
  "build_where_clause filters = build_where_clause (filter rendered filters)"
proof (cases "filter rendered filters = []")
  case True
  then have "foldl add_condition [] filters = []" by (simp add: conditions_empty_iff)
  with True show ?thesis by (simp add: build_where_clause_def)
next
  case False
  then have "filters \<noteq> []" by auto
  with False show ?thesis
    using foldl_add_condition_filter [of "[]" filters]
    by (simp add: build_where_clause_def)
qed

lemma build_where_clause_Nil_iff:
  "build_where_clause filters = [] \<longleftrightarrow> filter rendered filters = []"
  using conditions_empty_iff [of filters]
  by (auto simp: build_where_clause_def Let_def)


lemma query_parts_filter:
  "query_parts t c g a filters ob = query_parts t c g a (filter rendered filters) ob"
proof (cases "filter rendered filters = []")
  case True
  then have "build_where_clause filters = []" by (simp add: build_where_clause_Nil_iff)
  with True show ?thesis by (simp add: query_parts_def Let_def split: sum.splits)
next
  case False
  then have "filters \<noteq> []" by auto
  with False show ?thesis
    using build_where_clause_filter [of filters] by (simp add: query_parts_def Let_def split: sum.splits)
qed

section \<open>The shape of a built query\<close>

lemma build_from_clause_Nil:
  "build_from_clause [] = Inl (Exn IndexError ''list index out of range'')"
  by (simp add: build_from_clause_def)

lemma build_from_clause_ok: "tables \<noteq> [] \<Longrightarrow> \<exists>fc. build_from_clause tables = Inr fc"
  by (cases tables) (auto simp: build_from_clause_def)

lemma build_from_clause_hd:
  "tables \<noteq> [] \<Longrightarrow> \<exists>r. build_from_clause tables = Inr (hd tables @ r)"
  by (cases tables) (auto simp: build_from_clause_def)



section \<open>Claims about the query builder\<close>

text \<open>
  Claim C1, as the code has it: \<^verbatim>\<open>build_query\<close> fails exactly when the list of tables is
  empty, and then with the \<^verbatim>\<open>IndexError\<close> of \<^verbatim>\<open>tables[0]\<close>, which the handler
  re-raises. With at least one table it returns a query string, also when the list of
  columns is empty: the string then starts with an empty \<^verbatim>\<open>SELECT\<close> list.
\<close>

theorem build_query_fails_iff_no_tables:
  "(tables = [] \<longrightarrow>
      build_query tables columns group_by aggs filters order_by =
        Inl (Exn IndexError ''list index out of range''))
   \<and> (tables \<noteq> [] \<longrightarrow>
        (\<exists>q. build_query tables columns group_by aggs filters order_by = Inr q))
   \<and> (tables \<noteq> [] \<longrightarrow>
        (\<exists>rest. build_query tables [] group_by aggs filters order_by =
                  Inr (''SELECT \<newline>FROM '' @ hd tables @ rest)))"
proof (intro conjI impI)
  assume "tables = []"
  then show "build_query tables columns group_by aggs filters order_by =
        Inl (Exn IndexError ''list index out of range'')"
    by (simp add: build_query_def query_parts_def build_from_clause_Nil)
next
  assume "tables \<noteq> []"
  then obtain fc where "build_from_clause tables = Inr fc"
    using build_from_clause_ok by blast
  then show "\<exists>q. build_query tables columns group_by aggs filters order_by = Inr q"
    by (simp add: build_query_def query_parts_def Let_def)
next
  assume "tables \<noteq> []"
  then obtain r where fc: "build_from_clause tables = Inr (hd tables @ r)"
    using build_from_clause_hd by blast
  define ps where "ps =
     (if (if filters \<noteq> [] then build_where_clause filters else []) \<noteq> []
      then [if filters \<noteq> [] then build_where_clause filters else []] else [])
     @ (if (if group_by \<noteq> [] then build_group_by_clause group_by else []) \<noteq> []
        then [if group_by \<noteq> [] then build_group_by_clause group_by else []] else [])
     @ (if (if order_by \<noteq> [] then build_order_by_clause order_by aggs else []) \<noteq> []
        then [if order_by \<noteq> [] then build_order_by_clause order_by aggs else []] else [])"
  have qp: "query_parts tables [] group_by aggs filters order_by =
          Inr ([''SELECT '', ''FROM '' @ hd tables @ r] @ ps)"
    unfolding query_parts_def Let_def fc ps_def
    by (simp add: build_select_columns_def)
  have "\<exists>s. join ''\<newline>'' ([''SELECT '', ''FROM '' @ hd tables @ r] @ ps)
          = ''SELECT \<newline>FROM '' @ hd tables @ s"
    by (cases ps) simp_all
  with qp show "\<exists>rest. build_query tables [] group_by aggs filters order_by =
                  Inr (''SELECT \<newline>FROM '' @ hd tables @ rest)"
    by (auto simp: build_query_def)
qed

theorem build_query_fails_iff_no_tables_witness:
  "build_query [] [''c''] [] Map.empty [] [] = Inl (Exn IndexError ''list index out of range'')
   \<and> (\<exists>q. build_query [''t''] [''c''] [] Map.empty [] [] = Inr q)
   \<and> (\<exists>rest. build_query [''t''] [] [] Map.empty [] [] =
                  Inr (''SELECT \<newline>FROM '' @ hd [''t''] @ rest))"
  using build_query_fails_iff_no_tables [of "[]" "[''c'']" "[]" Map.empty "[]" "[]"]
        build_query_fails_iff_no_tables [of "[''t'']" "[''c'']" "[]" Map.empty "[]" "[]"]
  by simp

text \<open>
  Claim C1 as stated fails: with one table and no column, \<^verbatim>\<open>build_query\<close> returns a
  string.
\<close>

theorem build_query_empty_columns_counterexample:
  "build_query [''t''] [] [] Map.empty [] [] = Inr ''SELECT \<newline>FROM t''"
  by (simp add: build_query_def query_parts_def build_from_clause_def build_select_columns_def)




text \<open>
  Claim C10: a filter whose column is absent or empty, or whose value is \<^verbatim>\<open>None\<close>, leaves
  the list of conditions as it was; the clause and the whole query are those of the filter
  list without such filters, so nothing is rejected; and when every filter is skipped the
  \<^verbatim>\<open>WHERE\<close> clause is empty and the query is the one built with no filter at all.
\<close>

theorem where_clause_skips_filters:
  "(\<not> rendered f \<longrightarrow> add_condition conditions f = conditions)
   \<and> build_where_clause filters = build_where_clause (filter rendered filters)
   \<and> query_parts tables columns group_by aggs filters order_by =
       query_parts tables columns group_by aggs (filter rendered filters) order_by
   \<and> ((\<forall>f \<in> set filters. \<not> rendered f) \<longrightarrow>
        build_where_clause filters = []
        \<and> build_query tables columns group_by aggs filters order_by =
            build_query tables columns group_by aggs [] order_by)"
proof (intro conjI impI)
  assume "\<not> rendered f"
  then show "add_condition conditions f = conditions" by (rule add_condition_skip)
next
  show "build_where_clause filters = build_where_clause (filter rendered filters)"
    by (rule build_where_clause_filter)
next
  show "query_parts tables columns group_by aggs filters order_by =
       query_parts tables columns group_by aggs (filter rendered filters) order_by"
    by (rule query_parts_filter)
next
  assume a: "\<forall>f \<in> set filters. \<not> rendered f"
  then have e: "filter rendered filters = []" by (simp add: filter_empty_conv)
  then show "build_where_clause filters = []" by (simp add: build_where_clause_Nil_iff)
next
  assume a: "\<forall>f \<in> set filters. \<not> rendered f"
  then have e: "filter rendered filters = []" by (simp add: filter_empty_conv)
  show "build_query tables columns group_by aggs filters order_by =
            build_query tables columns group_by aggs [] order_by"
    unfolding build_query_def
    using query_parts_filter [of tables columns group_by aggs filters order_by] e by simp
qed

theorem where_clause_skips_filters_witness:
  "add_condition [''x = 1'']
      \<lparr>filter_column = Some '''', filter_operator = None, filter_value = PyInt 3\<rparr> = [''x = 1'']
   \<and> build_where_clause
        [\<lparr>filter_column = None, filter_operator = Some ''='', filter_value = PyStr ''x''\<rparr>,
         \<lparr>filter_column = Some ''zone'', filter_operator = Some ''='', filter_value = PyNone\<rparr>] = []
   \<and> build_query [''t''] [''c''] [] Map.empty
        [\<lparr>filter_column = None, filter_operator = Some ''='', filter_value = PyStr ''x''\<rparr>,
         \<lparr>filter_column = Some ''zone'', filter_operator = Some ''='', filter_value = PyNone\<rparr>] []
       = Inr ''SELECT c\<newline>FROM t''"
proof -
  let ?f = "\<lparr>filter_column = Some '''', filter_operator = None, filter_value = PyInt 3\<rparr>"
  let ?fs = "[\<lparr>filter_column = None, filter_operator = Some ''='', filter_value = PyStr ''x''\<rparr>,
         \<lparr>filter_column = Some ''zone'', filter_operator = Some ''='', filter_value = PyNone\<rparr>]"
  have r: "\<not> rendered ?f" by (simp add: rendered_def)
  have a: "\<forall>f \<in> set ?fs. \<not> rendered f" by (simp add: rendered_def)
  have q: "build_query [''t''] [''c''] [] Map.empty [] [] = Inr ''SELECT c\<newline>FROM t''"
    by (simp add: build_query_def query_parts_def build_from_clause_def build_select_columns_def
        select_item_def)
  have w: "build_where_clause [] = []" by (simp add: build_where_clause_def)
  from where_clause_skips_filters [of ?f "[''x = 1'']" ?fs "[''t'']" "[''c'']" "[]" Map.empty "[]"] r a q w
  show ?thesis by simp
qed

text \<open>
  Claim C6: the \<^verbatim>\<open>SELECT\<close> list joins, in the order of the columns, the item
  \<^verbatim>\<open>FUNC(column) AS func_colname\<close> for a column with an aggregation (\<^verbatim>\<open>func\<close> the function
  name in lower case, \<^verbatim>\<open>colname\<close> what follows the last dot of the column) and the column
  itself otherwise; \<^verbatim>\<open>readings.usage_gallons\<close> under \<^verbatim>\<open>SUM\<close> gets the alias
  \<^verbatim>\<open>sum_usage_gallons\<close>.
\<close>

theorem select_clause_aggregation:
  "build_select_columns columns aggs =
     join '',\<newline>    ''
       (map (\<lambda>column. case aggs column of
                 Some agg_func \<Rightarrow>
                   agg_func @ ''('' @ column @ '') AS '' @ lower agg_func @ ''_'' @
                   rev (takeWhile (\<lambda>x. x \<noteq> CHR ''.'') (rev column))
               | None \<Rightarrow> column) columns)
   \<and> build_select_columns [''readings.zone'', ''readings.usage_gallons'']
        [''readings.usage_gallons'' \<mapsto> ''SUM'']
       = ''readings.zone,\<newline>    SUM(readings.usage_gallons) AS sum_usage_gallons''"
proof
  have "select_item aggs = (\<lambda>column. case aggs column of
                 Some agg_func \<Rightarrow>
                   agg_func @ ''('' @ column @ '') AS '' @ lower agg_func @ ''_'' @
                   rev (takeWhile (\<lambda>x. x \<noteq> CHR ''.'') (rev column))
               | None \<Rightarrow> column)"
    by (rule ext) (simp add: select_item_def col_name_of_def last_split_str split: option.splits)
  then show "build_select_columns columns aggs =
     join '',\<newline>    ''
       (map (\<lambda>column. case aggs column of
                 Some agg_func \<Rightarrow>
                   agg_func @ ''('' @ column @ '') AS '' @ lower agg_func @ ''_'' @
                   rev (takeWhile (\<lambda>x. x \<noteq> CHR ''.'') (rev column))
               | None \<Rightarrow> column) columns)"
    by (simp add: build_select_columns_def foldl_snoc_map)
next
  show "build_select_columns [''readings.zone'', ''readings.usage_gallons'']
        [''readings.usage_gallons'' \<mapsto> ''SUM'']
       = ''readings.zone,\<newline>    SUM(readings.usage_gallons) AS sum_usage_gallons''"
    by (simp add: build_select_columns_def select_item_def col_name_of_def lower_def lower_char_def)
qed

section \<open>Validation of the query components\<close>

lemma check_column_eq:
  "check_column tables r column =
     r\<lparr>warnings := warnings r @
        (if CHR ''.'' \<in> set column \<and> takeWhile (\<lambda>x. x \<noteq> CHR ''.'') column \<notin> set tables
         then [''Column '' @ column @ '' references table '' @
               takeWhile (\<lambda>x. x \<noteq> CHR ''.'') column @ '' which is not selected'']
         else [])\<rparr>"
  by (simp add: check_column_def hd_split_str Let_def)

lemma foldl_check_column:
  "foldl (check_column tables) r columns =
     r\<lparr>warnings := warnings r @
        map (\<lambda>c. ''Column '' @ c @ '' references table '' @
                 takeWhile (\<lambda>x. x \<noteq> CHR ''.'') c @ '' which is not selected'')
          (filter (\<lambda>c. CHR ''.'' \<in> set c \<and> takeWhile (\<lambda>x. x \<noteq> CHR ''.'') c \<notin> set tables) columns)\<rparr>"
proof (induction columns arbitrary: r)
  case Nil
  then show ?case by simp
next
  case (Cons c cs)
  show ?case
    unfolding foldl_Cons Cons check_column_eq [of tables r c]
    by simp
qed

lemma validate_is_valid:
  "(\<not> is_valid (validate_query_components tables columns)) = (tables = [] \<or> columns = [])"
  by (simp add: validate_query_components_def foldl_check_column Let_def)

lemma validate_warnings:
  "warnings (validate_query_components tables columns) =
       map (\<lambda>c. ''Column '' @ c @ '' references table '' @
                 takeWhile (\<lambda>x. x \<noteq> CHR ''.'') c @ '' which is not selected'')
         (filter (\<lambda>c. CHR ''.'' \<in> set c \<and> takeWhile (\<lambda>x. x \<noteq> CHR ''.'') c \<notin> set tables) columns)"
  by (simp add: validate_query_components_def foldl_check_column Let_def)

lemma validate_errors:
  "errors (validate_query_components tables columns) =
       (if tables = [] then [''At least one table must be selected''] else []) @
       (if columns = [] then [''At least one column must be selected''] else [])"
  by (simp add: validate_query_components_def foldl_check_column Let_def)

text \<open>
  Claim C5: \<^verbatim>\<open>validate_query_components\<close> reports \<^verbatim>\<open>is_valid\<close> false iff the tables or
  the columns are empty; its warnings are, in order, one for each column that contains a
  dot and whose part before the first dot is not among the tables; the errors are the two
  emptiness messages only, so a warning never changes \<^verbatim>\<open>is_valid\<close>, as the example with
  one warning and a valid result shows.
\<close>

theorem validate_query_components_result:
  "(\<not> is_valid (validate_query_components tables columns)) = (tables = [] \<or> columns = [])
   \<and> warnings (validate_query_components tables columns) =
       map (\<lambda>c. ''Column '' @ c @ '' references table '' @
                 takeWhile (\<lambda>x. x \<noteq> CHR ''.'') c @ '' which is not selected'')
         (filter (\<lambda>c. CHR ''.'' \<in> set c \<and> takeWhile (\<lambda>x. x \<noteq> CHR ''.'') c \<notin> set tables) columns)
   \<and> errors (validate_query_components tables columns) =
       (if tables = [] then [''At least one table must be selected''] else []) @
       (if columns = [] then [''At least one column must be selected''] else [])
   \<and> is_valid (validate_query_components [''meters''] [''readings.usage'', ''meters.id'', ''zone''])
   \<and> warnings (validate_query_components [''meters''] [''readings.usage'', ''meters.id'', ''zone''])
       = [''Column readings.usage references table readings which is not selected'']"
proof (intro conjI)
  show "is_valid (validate_query_components [''meters''] [''readings.usage'', ''meters.id'', ''zone''])"
    using validate_is_valid [of "[''meters'']" "[''readings.usage'', ''meters.id'', ''zone'']"]
    by simp
  show "warnings (validate_query_components [''meters''] [''readings.usage'', ''meters.id'', ''zone''])
       = [''Column readings.usage references table readings which is not selected'']"
    unfolding validate_warnings by simp
qed (rule validate_is_valid validate_warnings validate_errors)+

section \<open>Aggregation by label\<close>



lemma sorted_group_keys: "sorted (group_keys rows)"
  by (simp add: group_keys_def)








section \<open>Failure of chart creation\<close>

lemma chart_methods_unsupported:
  "chart_type \<notin> set [''Bar Chart'', ''Line Chart'', ''Scatter Plot'', ''Pie Chart'', ''Histogram'',
                       ''Box Plot'', ''Heatmap'', ''Area Chart'', ''Treemap'']
   \<Longrightarrow> chart_methods chart_type = None"
  by (simp add: chart_methods_def)

lemma pie_role_missing:
  "falsy (config ''label_col'') \<or> falsy (config ''value_col'') \<Longrightarrow>
     create_pie_chart lib df config = Inl (Exn ValueError ''Pie chart requires label and value columns'')"
  by (auto simp: falsy_def create_pie_chart_def split: option.splits)

lemma treemap_role_missing:
  "falsy (config ''label_col'') \<or> falsy (config ''value_col'') \<Longrightarrow>
     create_treemap lib df config = Inl (Exn ValueError ''Treemap requires label and value columns'')"
  by (auto simp: falsy_def create_treemap_def split: option.splits)

lemma role_missing_method_raises:
  assumes "role_missing chart_type config"
  shows "\<exists>method msg. chart_methods chart_type = Some method
           \<and> method lib df config = Inl (Exn ValueError msg)"
proof -
  from assms have rr: "required_roles chart_type \<noteq> []"
    by (auto simp: role_missing_def)
  consider (xy) "chart_type \<in> set [''Bar Chart'', ''Line Chart'', ''Scatter Plot'', ''Area Chart'']"
    | (lv) "chart_type \<in> set [''Pie Chart'', ''Treemap'']"
    | (x) "chart_type \<in> set [''Histogram'', ''Box Plot'']"
    using rr by (auto simp: required_roles_def split: if_splits)
  then show ?thesis
  proof cases
    case xy
    then have "required_roles chart_type = [''x_col'', ''y_col'']"
      by (simp add: required_roles_def)
    with assms have m: "falsy (config ''x_col'') \<or> falsy (config ''y_col'')"
      by (auto simp: role_missing_def split: if_splits)
    from xy consider "chart_type = ''Bar Chart''" | "chart_type = ''Line Chart''"
      | "chart_type = ''Scatter Plot''" | "chart_type = ''Area Chart''" by auto
    then show ?thesis
    proof cases
      case 1
      then have "chart_methods chart_type = Some create_bar_chart" by (simp add: chart_methods_def)
      moreover from m have "create_bar_chart lib df config =
          Inl (Exn ValueError ''Bar chart requires x and y columns'')"
        by (auto simp: create_bar_chart_def)
      ultimately show ?thesis by blast
    next
      case 2
      then have "chart_methods chart_type = Some create_line_chart" by (simp add: chart_methods_def)
      moreover from m have "create_line_chart lib df config =
          Inl (Exn ValueError ''Line chart requires x and y columns'')"
        by (auto simp: create_line_chart_def)
      ultimately show ?thesis by blast
    next
      case 3
      then have "chart_methods chart_type = Some create_scatter_plot" by (simp add: chart_methods_def)
      moreover from m have "create_scatter_plot lib df config =
          Inl (Exn ValueError ''Scatter plot requires x and y columns'')"
        by (auto simp: create_scatter_plot_def)
      ultimately show ?thesis by blast
    next
      case 4
      then have "chart_methods chart_type = Some create_area_chart" by (simp add: chart_methods_def)
      moreover from m have "create_area_chart lib df config =
          Inl (Exn ValueError ''Area chart requires x and y columns'')"
        by (auto simp: create_area_chart_def)
      ultimately show ?thesis by blast
    qed
  next
    case lv
    then have "required_roles chart_type = [''label_col'', ''value_col'']"
      by (auto simp: required_roles_def)
    with assms have m: "falsy (config ''label_col'') \<or> falsy (config ''value_col'')"
      by (auto simp: role_missing_def split: if_splits)
    from lv consider "chart_type = ''Pie Chart''" | "chart_type = ''Treemap''" by auto
    then show ?thesis
    proof cases
      case 1
      then have "chart_methods chart_type = Some create_pie_chart" by (simp add: chart_methods_def)
      with pie_role_missing [OF m] show ?thesis by blast
    next
      case 2
      then have "chart_methods chart_type = Some create_treemap" by (simp add: chart_methods_def)
      with treemap_role_missing [OF m] show ?thesis by blast
    qed
  next
    case x
    then have "required_roles chart_type = [''x_col'']"
      by (auto simp: required_roles_def)
    with assms have m: "falsy (config ''x_col'')"
      by (auto simp: role_missing_def split: if_splits)
    from x consider "chart_type = ''Histogram''" | "chart_type = ''Box Plot''" by auto
    then show ?thesis
    proof cases
      case 1
      then have "chart_methods chart_type = Some create_histogram" by (simp add: chart_methods_def)
      moreover from m have "create_histogram lib df config =
          Inl (Exn ValueError ''Histogram requires x column'')"
        by (auto simp: create_histogram_def)
      ultimately show ?thesis by blast
    next
      case 2
      then have "chart_methods chart_type = Some create_box_plot" by (simp add: chart_methods_def)
      moreover from m have "create_box_plot lib df config =
          Inl (Exn ValueError ''Box plot requires x column'')"
        by (auto simp: create_box_plot_def)
      ultimately show ?thesis by blast
    qed
  qed
qed

lemma create_chart_None_iff:
  "create_chart lib df chart_type config = None \<longleftrightarrow>
     df_empty df
     \<or> (case chart_methods chart_type of
           None \<Rightarrow> True
         | Some method \<Rightarrow> (\<exists>e. method lib df config = Inl e))"
  by (auto simp: create_chart_def split: option.splits sum.splits)

lemma heatmap_no_numeric:
  "df_empty (select_dtypes_number df) \<Longrightarrow> create_chart lib df ''Heatmap'' config = None"
  by (simp add: create_chart_def chart_methods_def create_heatmap_def)

text \<open>
  Claim C2, as the code has it: \<^verbatim>\<open>create_chart\<close> raises nothing and returns \<^verbatim>\<open>None\<close>
  exactly when the table is empty, the chart type is not a supported one, or the chart
  method raises. An empty table or a missing required role always gives \<^verbatim>\<open>None\<close> (the
  method raises \<^verbatim>\<open>ValueError\<close> for the role), and so do an unsupported chart type and a
  heatmap over a table with no numeric data.
\<close>

theorem create_chart_failure:
  "(create_chart lib df chart_type config = None \<longleftrightarrow>
      df_empty df
      \<or> (case chart_methods chart_type of
            None \<Rightarrow> True
          | Some method \<Rightarrow> (\<exists>e. method lib df config = Inl e)))
   \<and> (df_empty df \<or> role_missing chart_type config \<longrightarrow>
        create_chart lib df chart_type config = None)
   \<and> (role_missing chart_type config \<longrightarrow>
        (\<exists>method msg. chart_methods chart_type = Some method
           \<and> method lib df config = Inl (Exn ValueError msg)))
   \<and> (chart_type \<notin> set [''Bar Chart'', ''Line Chart'', ''Scatter Plot'', ''Pie Chart'',
                          ''Histogram'', ''Box Plot'', ''Heatmap'', ''Area Chart'', ''Treemap''] \<longrightarrow>
        create_chart lib df chart_type config = None)
   \<and> (df_empty (select_dtypes_number df) \<longrightarrow> create_chart lib df ''Heatmap'' config = None)"
proof (intro conjI impI)
  show "create_chart lib df chart_type config = None \<longleftrightarrow>
      df_empty df
      \<or> (case chart_methods chart_type of
            None \<Rightarrow> True
          | Some method \<Rightarrow> (\<exists>e. method lib df config = Inl e))"
    by (rule create_chart_None_iff)
next
  assume "df_empty df \<or> role_missing chart_type config"
  then show "create_chart lib df chart_type config = None"
  proof
    assume "df_empty df"
    then show ?thesis by (simp add: create_chart_def)
  next
    assume "role_missing chart_type config"
    from role_missing_method_raises [OF this, of lib df]
    show ?thesis by (auto simp: create_chart_def)
  qed
next
  assume "role_missing chart_type config"
  then show "\<exists>method msg. chart_methods chart_type = Some method
           \<and> method lib df config = Inl (Exn ValueError msg)"
    by (rule role_missing_method_raises)
next
  assume "chart_type \<notin> set [''Bar Chart'', ''Line Chart'', ''Scatter Plot'', ''Pie Chart'',
                          ''Histogram'', ''Box Plot'', ''Heatmap'', ''Area Chart'', ''Treemap'']"
  then have "chart_methods chart_type = (None :: ('a library \<Rightarrow> dataframe \<Rightarrow> config \<Rightarrow> exn + 'a) option)"
    by (rule chart_methods_unsupported)
  then show "create_chart lib df chart_type config = None"
    by (simp add: create_chart_def)
next
  assume "df_empty (select_dtypes_number df)"
  then show "create_chart lib df ''Heatmap'' config = None"
    by (rule heatmap_no_numeric)
qed

theorem create_chart_failure_witness:
  "create_chart echo_library \<lparr>index_len = 0, df_columns = [(''zone'', TextCol [])]\<rparr>
       ''Bar Chart'' [''x_col'' \<mapsto> ''zone'', ''y_col'' \<mapsto> ''zone''] = None
   \<and> create_chart echo_library \<lparr>index_len = 1, df_columns = [(''zone'', TextCol [Some ''A''])]\<rparr>
       ''Bar Chart'' [''x_col'' \<mapsto> ''zone''] = None
   \<and> create_chart echo_library \<lparr>index_len = 1, df_columns = [(''zone'', TextCol [Some ''A''])]\<rparr>
       ''Donut'' Map.empty = None
   \<and> create_chart echo_library \<lparr>index_len = 1, df_columns = [(''zone'', TextCol [Some ''A''])]\<rparr>
       ''Heatmap'' Map.empty = None"
proof -
  let ?df = "\<lparr>index_len = 1, df_columns = [(''zone'', TextCol [Some ''A''])]\<rparr>"
  have e: "df_empty \<lparr>index_len = 0, df_columns = [(''zone'', TextCol [])]\<rparr>"
    by (simp add: df_empty_def)
  have r: "role_missing ''Bar Chart'' [''x_col'' \<mapsto> ''zone'']"
    by (simp add: role_missing_def required_roles_def falsy_def)
  have u: "''Donut'' \<notin> set [''Bar Chart'', ''Line Chart'', ''Scatter Plot'', ''Pie Chart'',
                          ''Histogram'', ''Box Plot'', ''Heatmap'', ''Area Chart'', ''Treemap'']"
    by simp
  have h: "df_empty (select_dtypes_number ?df)"
    by (simp add: df_empty_def select_dtypes_number_def)
  from create_chart_failure [of echo_library "\<lparr>index_len = 0, df_columns = [(''zone'', TextCol [])]\<rparr>"
         "''Bar Chart''" "[''x_col'' \<mapsto> ''zone'', ''y_col'' \<mapsto> ''zone'']"] e
  have 1: "create_chart echo_library \<lparr>index_len = 0, df_columns = [(''zone'', TextCol [])]\<rparr>
       ''Bar Chart'' [''x_col'' \<mapsto> ''zone'', ''y_col'' \<mapsto> ''zone''] = None" by blast
  from create_chart_failure [of echo_library ?df "''Bar Chart''" "[''x_col'' \<mapsto> ''zone'']"] r
  have 2: "create_chart echo_library ?df ''Bar Chart'' [''x_col'' \<mapsto> ''zone''] = None" by blast
  from create_chart_failure [of echo_library ?df "''Donut''" Map.empty] u
  have 3: "create_chart echo_library ?df ''Donut'' Map.empty = None" by blast
  from create_chart_failure [of echo_library ?df "''Heatmap''" Map.empty] h
  have 4: "create_chart echo_library ?df ''Heatmap'' Map.empty = None" by blast
  from 1 2 3 4 show ?thesis by blast
qed

text \<open>
  Claim C2 as stated fails: a heatmap over a non-empty table of text columns gives
  \<^verbatim>\<open>None\<close>, though the table is not empty and no required role is missing.
\<close>

theorem create_chart_heatmap_counterexample:
  "create_chart echo_library \<lparr>index_len = 1, df_columns = [(''zone'', TextCol [Some ''A''])]\<rparr>
       ''Heatmap'' Map.empty = None
   \<and> \<not> df_empty \<lparr>index_len = 1, df_columns = [(''zone'', TextCol [Some ''A''])]\<rparr>
   \<and> \<not> role_missing ''Heatmap'' Map.empty"
  by (simp add: create_chart_def chart_methods_def create_heatmap_def df_empty_def
        select_dtypes_number_def role_missing_def required_roles_def)

section \<open>Report generation\<close>

lemma generate_report_returns:
  "\<exists>doc. generate_report self df title report_type ic st = Inr doc"
  by (simp add: generate_report_def split: sum.splits)

lemma error_report_embeds:
  \<open>\<exists>pre post. error_report self msg = pre @ msg @ post
     \<and> startswith pre ''\<newline>        <!DOCTYPE html>\<newline>        <html>''
     \<and> endswith pre ''<pre style="background: #f8f9fa; padding: 15px; border-radius: 5px;">''
     \<and> startswith post ''</pre>''
     \<and> endswith post ''</body>\<newline>        </html>\<newline>        ''\<close>
proof -
  define pre where \<open>pre =
     ''\<newline>        <!DOCTYPE html>'' @
     ''\<newline>        <html>'' @
     ''\<newline>        <head>'' @
     ''\<newline>            <title>Report Generation Error</title>'' @
     ''\<newline>            '' @ css_styles self @
     ''\<newline>        </head>'' @
     ''\<newline>        <body>'' @
     ''\<newline>            <div class="report-container">'' @
     ''\<newline>                <div class="header">'' @
     ''\<newline>                    <h1 style="color: #dc3545;">Report Generation Error</h1>'' @
     ''\<newline>                </div>'' @
     ''\<newline>                <div class="section">'' @
     ''\<newline>                    <p>An error occurred while generating the report:</p>'' @
     ''\<newline>                    <pre style="background: #f8f9fa; padding: 15px; border-radius: 5px;">''\<close>
  define post where \<open>post =
     ''</pre>'' @
     ''\<newline>                </div>'' @
     ''\<newline>            </div>'' @
     ''\<newline>        </body>'' @
     ''\<newline>        </html>'' @
     ''\<newline>        ''\<close>
  have 1: "error_report self msg = pre @ msg @ post"
    by (simp add: error_report_def pre_def post_def)
  have 2: \<open>startswith pre ''\<newline>        <!DOCTYPE html>\<newline>        <html>''\<close>
    by (simp add: pre_def startswith_def)
  have 3: \<open>endswith pre ''<pre style="background: #f8f9fa; padding: 15px; border-radius: 5px;">''\<close>
    by (simp add: pre_def endswith_def)
  have 4: \<open>startswith post ''</pre>''\<close>
    by (simp add: post_def startswith_def)
  have 5: \<open>endswith post ''</body>\<newline>        </html>\<newline>        ''\<close>
    by (simp add: post_def endswith_def)
  from 1 2 3 4 5 show ?thesis by blast
qed

text \<open>
  Claim C4: \<^verbatim>\<open>generate_report\<close> always returns a document. When the template raises, the
  document is the error report of the exception's message: it opens with the doctype and
  the \<^verbatim>\<open>html\<close> tag, holds the message between \<^verbatim>\<open><pre ...>\<close> and \<^verbatim>\<open></pre>\<close>, and closes
  the body and the document.
\<close>

theorem generate_report_never_raises:
  \<open>(\<exists>doc. generate_report self df title report_type ic st = Inr doc)
   \<and> (template_func self report_type df title ic st = Inl e \<longrightarrow>
        generate_report self df title report_type ic st = Inr (error_report self (str_exn e)))
   \<and> (template_func self report_type df title ic st = Inr html \<longrightarrow>
        generate_report self df title report_type ic st = Inr html)
   \<and> (\<exists>pre post. error_report self msg = pre @ msg @ post
         \<and> startswith pre ''\<newline>        <!DOCTYPE html>\<newline>        <html>''
         \<and> endswith pre ''<pre style="background: #f8f9fa; padding: 15px; border-radius: 5px;">''
         \<and> startswith post ''</pre>''
         \<and> endswith post ''</body>\<newline>        </html>\<newline>        '')\<close>
proof (intro conjI impI)
  show "\<exists>doc. generate_report self df title report_type ic st = Inr doc"
    by (rule generate_report_returns)
next
  assume "template_func self report_type df title ic st = Inl e"
  then show "generate_report self df title report_type ic st = Inr (error_report self (str_exn e))"
    by (simp add: generate_report_def)
next
  assume "template_func self report_type df title ic st = Inr html"
  then show "generate_report self df title report_type ic st = Inr html"
    by (simp add: generate_report_def)
next
  show \<open>\<exists>pre post. error_report self msg = pre @ msg @ post
         \<and> startswith pre ''\<newline>        <!DOCTYPE html>\<newline>        <html>''
         \<and> endswith pre ''<pre style="background: #f8f9fa; padding: 15px; border-radius: 5px;">''
         \<and> startswith post ''</pre>''
         \<and> endswith post ''</body>\<newline>        </html>\<newline>        ''\<close>
    by (rule error_report_embeds)
qed

lemma template_func_executive:
  "template_func self ''Executive Summary'' = executive_summary_template self"
  by (simp add: template_func_def template_key_def report_templates_def lower_def lower_char_def
        replace_char_def)

theorem generate_report_never_raises_witness:
  "generate_report failing_generator \<lparr>index_len = 0, df_columns = []\<rparr> ''T'' ''Executive Summary''
       True True = Inr (error_report failing_generator ''usage'')"
proof -
  have "template_func failing_generator ''Executive Summary''
          \<lparr>index_len = 0, df_columns = []\<rparr> ''T'' True True = Inl (Exn KeyError ''usage'')"
    by (simp add: template_func_executive failing_generator_def)
  with generate_report_never_raises
         [of failing_generator "\<lparr>index_len = 0, df_columns = []\<rparr>" "''T''" "''Executive Summary''"
             True True "Exn KeyError ''usage''"]
  show ?thesis by simp
qed

lemma template_func_fallback:
  assumes "template_key report_type \<notin> {''executive_summary'', ''detailed_analysis'', ''trend_report''}"
  shows "template_func self report_type = detailed_analysis_template self"
  using assms by (simp add: template_func_def report_templates_def)

lemma template_func_detailed:
  "template_func self ''detailed_analysis'' = detailed_analysis_template self"
  by (simp add: template_func_def template_key_def report_templates_def lower_def lower_char_def
        replace_char_def)

text \<open>
  Claim C8: a report type whose key is none of the three template keys selects the
  detailed-analysis template; the report is the one generated for the type
  \<^verbatim>\<open>detailed_analysis\<close> on the same inputs, a document is returned, and it is the
  template's document whenever that template succeeds.
\<close>

theorem unknown_report_type_falls_back:
  assumes "template_key report_type \<notin> {''executive_summary'', ''detailed_analysis'', ''trend_report''}"
  shows "template_func self report_type = detailed_analysis_template self
     \<and> generate_report self df title report_type ic st =
         generate_report self df title ''detailed_analysis'' ic st
     \<and> (\<exists>doc. generate_report self df title report_type ic st = Inr doc)
     \<and> (detailed_analysis_template self df title ic st = Inr html \<longrightarrow>
          generate_report self df title report_type ic st = Inr html)"
proof (intro conjI impI)
  show f: "template_func self report_type = detailed_analysis_template self"
    using assms by (rule template_func_fallback)
  show "generate_report self df title report_type ic st =
         generate_report self df title ''detailed_analysis'' ic st"
    by (simp add: generate_report_def f template_func_detailed)
  show "\<exists>doc. generate_report self df title report_type ic st = Inr doc"
    by (rule generate_report_returns)
  assume "detailed_analysis_template self df title ic st = Inr html"
  then show "generate_report self df title report_type ic st = Inr html"
    by (simp add: generate_report_def f)
qed

theorem unknown_report_type_falls_back_witness:
  "generate_report failing_generator \<lparr>index_len = 0, df_columns = []\<rparr> ''T'' ''Quarterly Review''
       True True = Inr ''<html>T</html>''"
proof -
  have k: "template_key ''Quarterly Review'' \<notin> {''executive_summary'', ''detailed_analysis'', ''trend_report''}"
    by (simp add: template_key_def lower_def lower_char_def replace_char_def)
  have d: "detailed_analysis_template failing_generator \<lparr>index_len = 0, df_columns = []\<rparr> ''T'' True True
             = Inr ''<html>T</html>''"
    by (simp add: failing_generator_def)
  from unknown_report_type_falls_back [OF k, of failing_generator
         "\<lparr>index_len = 0, df_columns = []\<rparr>" "''T''" True True "''<html>T</html>''"] d
  show ?thesis by blast
qed

end
